theory Spec2Isabelle
  imports Main "HOL-Library.Multiset"
begin

section \<open>Go string and path helpers used by the route pipeline\<close>

text \<open>
  Go strings are byte sequences; they are modelled as \<open>string\<close> (a list of
  \<open>char\<close>). The helpers below follow package \<open>strings\<close> for the calls that
  \<open>routes.go\<close> makes: every separator passed to \<open>strings.Split\<close> there is a
  single byte, so \<open>Split\<close> takes a \<open>char\<close>.
\<close>

definition HasPrefix :: "string \<Rightarrow> string \<Rightarrow> bool" where
  "HasPrefix s p = (take (length p) s = p)"

definition TrimPrefix :: "string \<Rightarrow> string \<Rightarrow> string" where
  "TrimPrefix s p = (if HasPrefix s p then drop (length p) s else s)"

definition HasSuffix :: "string \<Rightarrow> string \<Rightarrow> bool" where
  "HasSuffix s x = (length x \<le> length s \<and> drop (length s - length x) s = x)"

definition TrimSuffix :: "string \<Rightarrow> string \<Rightarrow> string" where
  "TrimSuffix s x = (if HasSuffix s x then take (length s - length x) s else s)"

text \<open>\<open>strings.Split(s, sep)\<close> for a one-byte \<open>sep\<close>: never returns an empty slice.\<close>

fun Split :: "string \<Rightarrow> char \<Rightarrow> string list" where
  "Split [] c = [[]]"
| "Split (x # xs) c =
     (if x = c then [] # Split xs c
      else (case Split xs c of [] \<Rightarrow> [[x]] | t # ts \<Rightarrow> (x # t) # ts))"

text \<open>
  \<open>filepath.Base\<close> on a system whose separator is \<open>/\<close>: an empty path is \<open>.\<close>,
  trailing separators are stripped, the last element is returned, and a path of
  separators only is \<open>/\<close>.
\<close>

definition Base :: "string \<Rightarrow> string" where
  "Base p =
     (if p = [] then ''.''
      else (let q = rev (dropWhile (\<lambda>c. c = CHR ''/'') (rev p));
                b = rev (takeWhile (\<lambda>c. c \<noteq> CHR ''/'') (rev q))
            in if b = [] then ''/'' else b))"

section \<open>Data model of \<open>plugins/elasticsearch/routes.go\<close>\<close>

text \<open>
  \<open>op.Operation\<close> is declared in \<open>internal/types/op\<close>, which is not among the
  sources; \<open>routes.go\<close> uses its three constants \<open>op.Read\<close>, \<open>op.Write\<close> and
  \<open>op.Delete\<close>.
\<close>

datatype Operation = Read | Write | Delete

text \<open>
  Modelled from the spec: the zero value of \<open>op.Operation\<close>, which
  \<open>var specOp op.Operation\<close> in \<open>decodeOp\<close> starts from. The declaration of the type
  is missing; the spec gives the operation as one of read/write/delete and has an
  exhausted method list classify as read.
\<close>

definition Operation_zero :: Operation where
  "Operation_zero = Read"

text \<open>
  The \<open>spec\<close> struct. The nested fields \<open>URL.Path\<close>, \<open>URL.Paths\<close> and
  \<open>Body.Required\<close> are flattened; \<open>Methods\<close> is written \<open>spec_Methods\<close> because
  \<open>route.Route\<close> has a field of the same name. The fields that \<open>routes.go\<close> never
  reads (\<open>URL.Parts\<close>, \<open>URL.Params\<close>, \<open>Body.Description\<close>, \<open>Body.Serialize\<close>) are
  left out.
\<close>

record spec =
  Documentation :: string
  spec_Methods :: "string list"
  URL_Path :: string
  URL_Paths :: "string list"
  Body_Required :: bool

text \<open>
  The \<open>api\<close> struct. \<open>category.Category\<close> and \<open>acl.ACL\<close> are declared in packages
  that are not among the sources, so they are the type parameters \<open>'c\<close> and \<open>'a\<close>.
\<close>

record ('c, 'a) api =
  name :: string
  category :: 'c
  acl :: 'a
  op :: Operation
  spec :: spec

text \<open>
  \<open>route.Route\<close> as \<open>preprocess\<close> fills it. \<open>HandlerFunc\<close> is the same value
  \<open>middleware(es.handler())\<close> in every entry and is left out.
\<close>

record Route =
  Name :: string
  Methods :: "string list"
  Path :: string
  Description :: string

text \<open>
  The package-level variables \<open>routes\<close>, \<open>routeSpecs\<close> and \<open>acls\<close>. A Go map is a
  partial function; \<open>acls\<close> is a map of maps to \<open>bool\<close>.
\<close>

record ('c, 'a) globals =
  routes :: "Route list"
  routeSpecs :: "string \<rightharpoonup> ('c, 'a) api"
  acls :: "'c \<rightharpoonup> ('a \<rightharpoonup> bool)"

definition globals_init :: "('c, 'a) globals" where
  "globals_init = \<lparr>routes = [], routeSpecs = Map.empty, acls = Map.empty\<rparr>"

text \<open>How a process of the gateway ends other than by returning.\<close>

datatype abort = LogFatal | NilDereference | IndexOutOfRange

section \<open>Classifier\<close>

text \<open>
  \<open>decodeCategory\<close>; \<open>category.FromString\<close> is the parameter \<open>cfs\<close>. The index
  \<open>len(docTokens)-1\<close> and \<open>tagTokens[0]\<close> are in range because \<open>Split\<close> returns
  at least one element.
\<close>

definition decodeCategory :: "(string \<Rightarrow> 'c) \<Rightarrow> spec \<Rightarrow> 'c" where
  "decodeCategory cfs s =
     (let docTokens = Split (Documentation s) (CHR ''/'');
          tag = TrimSuffix (last docTokens) ''.html'';
          tagTokens = Split tag (CHR ''-'');
          tagName = hd tagTokens
      in cfs tagName)"

text \<open>
  \<open>decodeACL\<close>. \<open>acl.FromString\<close> is the parameter \<open>afs\<close>, returning \<open>Inl\<close> of its
  error or \<open>Inr\<close> of the tier; \<open>acl.Get\<close> is the parameter \<open>dflt\<close>. The Go function
  returns a pointer and an error: the pointer is an \<open>option\<close> (\<open>None\<close> is \<open>nil\<close>),
  and so is the error. \<open>decodeACL_scan\<close> is the \<open>for ... range pathTokens\<close> loop; it
  yields \<open>None\<close> when the loop ends without returning.
\<close>

fun decodeACL_scan :: "(string \<Rightarrow> 'e + 'a) \<Rightarrow> string list \<Rightarrow> ('a option \<times> 'e option) option" where
  "decodeACL_scan afs [] = None"
| "decodeACL_scan afs (pathToken # rest) =
     (if HasPrefix pathToken ''_''
      then (case afs (TrimPrefix pathToken ''_'') of
              Inl err \<Rightarrow> Some (None, Some err)
            | Inr c \<Rightarrow> Some (Some c, None))
      else decodeACL_scan afs rest)"

definition decodeACL :: "(string \<Rightarrow> 'e + 'a) \<Rightarrow> 'a \<Rightarrow> string \<Rightarrow> spec \<Rightarrow> 'a option \<times> 'e option" where
  "decodeACL afs dflt specName s =
     (case decodeACL_scan afs (Split (URL_Path s) (CHR ''/'')) of
        Some r \<Rightarrow> r
      | None \<Rightarrow>
          (let aclString = hd (Split specName (CHR ''.''))
           in case afs aclString of
                Inl err \<Rightarrow> (Some dflt, Some err)
              | Inr a \<Rightarrow> (Some a, None)))"

text \<open>
  \<open>decodeOp\<close>. \<open>decodeOp_loop\<close> is the labelled \<open>for\<close> loop with the current value
  of \<open>specOp\<close>; every \<open>break out\<close> returns at once, the \<open>POST\<close> case goes on to the
  next method.
\<close>

fun decodeOp_loop :: "Operation \<Rightarrow> string list \<Rightarrow> Operation" where
  "decodeOp_loop specOp [] = specOp"
| "decodeOp_loop specOp (method # rest) =
     (if method = ''PUT'' then Write
      else if method = ''PATCH'' then Write
      else if method = ''DELETE'' then Delete
      else if method = ''GET'' then Read
      else if method = ''HEAD'' then Read
      else if method = ''POST'' then decodeOp_loop Write rest
      else Read)"

definition decodeOp :: "spec \<Rightarrow> Operation" where
  "decodeOp s = decodeOp_loop Operation_zero (spec_Methods s)"

section \<open>Spec decode pool\<close>

text \<open>
  \<open>ioutil.ReadFile\<close> and \<open>encoding/json\<close> are library code. What they answer for
  one file is the file's \<open>file_content\<close>: the read fails, the first
  \<open>decoder.Token()\<close> fails, the second one fails, \<open>decoder.Decode(&s)\<close> fails, or
  the wrapped object decodes into a \<open>spec\<close>. A spec file is its path with its
  content.
\<close>

datatype file_content =
  ReadFails | NoOpeningToken | NoNameToken | BodyRejected | Wrapped spec

datatype log_line = CantReadFile | UnableToCategorize string

text \<open>
  \<open>decodeSpecFile\<close>: one decode task. The result is \<open>Inl\<close> when the task ends the
  process (\<open>log.Fatal\<close> exits with status 1; dereferencing a nil \<open>*acl.ACL\<close> in
  \<open>acl: *specACL\<close> panics), and otherwise the lines it logged with the \<open>api\<close> it
  sent on the channel, if any.
\<close>

definition decodeSpecFile ::
  "(string \<Rightarrow> 'c) \<Rightarrow> (string \<Rightarrow> 'e + 'a) \<Rightarrow> 'a \<Rightarrow> string \<times> file_content
     \<Rightarrow> abort + (log_line list \<times> ('c, 'a) api option)" where
  "decodeSpecFile cfs afs dflt f =
     (case snd f of
        ReadFails \<Rightarrow> Inr ([CantReadFile], None)
      | NoOpeningToken \<Rightarrow> Inl LogFatal
      | NoNameToken \<Rightarrow> Inl LogFatal
      | BodyRejected \<Rightarrow> Inl LogFatal
      | Wrapped s \<Rightarrow>
          (let specName = TrimSuffix (Base (fst f)) ''.json'';
               specCategory = decodeCategory cfs s;
               specOp = decodeOp s;
               r = decodeACL afs dflt specName s;
               lg = (case snd r of None \<Rightarrow> [] | Some err \<Rightarrow> [UnableToCategorize specName])
           in case fst r of
                None \<Rightarrow> Inl NilDereference
              | Some specACL \<Rightarrow>
                  Inr (lg, Some \<lparr>name = specName, category = specCategory,
                                  acl = specACL, op = specOp, spec = s\<rparr>)))"

text \<open>
  \<open>decodeSpecFiles\<close>: one task per file, joined by the wait group before the
  channel is closed. The tasks run concurrently; the list is the order in which
  they finish. A task that ends the process ends it for every task, whatever the
  order, so the pool yields \<open>Inl\<close> as soon as one task does.
\<close>

fun decodeSpecFiles ::
  "(string \<Rightarrow> 'c) \<Rightarrow> (string \<Rightarrow> 'e + 'a) \<Rightarrow> 'a \<Rightarrow> (string \<times> file_content) list
     \<Rightarrow> abort + (log_line list \<times> ('c, 'a) api list)" where
  "decodeSpecFiles cfs afs dflt [] = Inr ([], [])"
| "decodeSpecFiles cfs afs dflt (f # fs) =
     (case decodeSpecFile cfs afs dflt f of
        Inl e \<Rightarrow> Inl e
      | Inr (lg, sent) \<Rightarrow>
          (case decodeSpecFiles cfs afs dflt fs of
             Inl e \<Rightarrow> Inl e
           | Inr (lgs, apis) \<Rightarrow>
               Inr (lg @ lgs, (case sent of None \<Rightarrow> apis | Some a \<Rightarrow> a # apis))))"

section \<open>Route table builder\<close>

text \<open>The loop \<open>for _, method := range api.spec.Methods\<close> filling \<open>routeSpecs\<close>.\<close>

fun range_methods ::
  "('c, 'a) api \<Rightarrow> string \<Rightarrow> string list \<Rightarrow> (string \<rightharpoonup> ('c, 'a) api) \<Rightarrow> (string \<rightharpoonup> ('c, 'a) api)" where
  "range_methods a path [] rs = rs"
| "range_methods a path (method # ms) rs =
     range_methods a path ms (rs(method @ '':'' @ path \<mapsto> a))"

text \<open>The loop \<open>for _, path := range api.spec.URL.Paths\<close>.\<close>

fun range_paths :: "('c, 'a) api \<Rightarrow> string list \<Rightarrow> ('c, 'a) globals \<Rightarrow> ('c, 'a) globals" where
  "range_paths a [] g = g"
| "range_paths a (p # ps) g =
     (let path = (if \<not> HasPrefix p ''/'' then ''/'' @ p else p)
      in if path = ''/'' then range_paths a ps g
         else range_paths a ps
                (g\<lparr>routes := routes g @
                      [\<lparr>Name = name a, Methods = spec_Methods (spec a), Path = path,
                        Description = Documentation (spec a)\<rparr>],
                    routeSpecs := range_methods a path (spec_Methods (spec a)) (routeSpecs g)\<rparr>))"

text \<open>The two \<open>if _, ok := acls[...]\<close> statements at the end of the outer loop body.\<close>

definition note_acl :: "('c, 'a) api \<Rightarrow> ('c, 'a) globals \<Rightarrow> ('c, 'a) globals" where
  "note_acl a g =
     (let inner = (case acls g (category a) of None \<Rightarrow> Map.empty | Some m \<Rightarrow> m);
          inner' = (case inner (acl a) of None \<Rightarrow> inner(acl a \<mapsto> True) | Some b \<Rightarrow> inner)
      in g\<lparr>acls := (acls g)(category a \<mapsto> inner')\<rparr>)"

text \<open>The loop \<open>for api := range apis\<close> over the values received on the channel.\<close>

fun range_apis :: "('c, 'a) api list \<Rightarrow> ('c, 'a) globals \<Rightarrow> ('c, 'a) globals" where
  "range_apis [] g = g"
| "range_apis (a # as) g =
     range_apis as (note_acl a (range_paths a (URL_Paths (spec a)) g))"

text \<open>
  The comparator \<open>criteria\<close>. \<open>util.CountComponents\<close> is in \<open>internal/util\<close>, which
  is not among the sources: it is the parameter \<open>cc\<close>, returning the two Go
  \<open>int\<close>s.
\<close>

definition criteria :: "(string \<Rightarrow> int \<times> int) \<Rightarrow> Route \<Rightarrow> Route \<Rightarrow> bool" where
  "criteria cc r1 r2 =
     (let f1 = fst (cc (Path r1)); c1 = snd (cc (Path r1));
          f2 = fst (cc (Path r2)); c2 = snd (cc (Path r2))
      in if f1 = f2 then c1 < c2 else f1 > f2)"

text \<open>
  Modelled from the spec: \<open>route.By(criteria).Sort(routes)\<close>. Package \<open>arc/route\<close>
  is not among the sources. The spec has the builder sort the accumulated
  entries by the comparator, remaining ties stable: \<open>Sort\<close> is the stable
  insertion sort for a comparator \<open>lt\<close> ("comes before").
\<close>

fun Sort_insert :: "('r \<Rightarrow> 'r \<Rightarrow> bool) \<Rightarrow> 'r \<Rightarrow> 'r list \<Rightarrow> 'r list" where
  "Sort_insert lt x [] = [x]"
| "Sort_insert lt x (y # ys) =
     (if lt y x then y # Sort_insert lt x ys else x # y # ys)"

fun Sort :: "('r \<Rightarrow> 'r \<Rightarrow> bool) \<Rightarrow> 'r list \<Rightarrow> 'r list" where
  "Sort lt [] = []"
| "Sort lt (x # xs) = Sort_insert lt x (Sort lt xs)"

definition indexRoute :: Route where
  "indexRoute = \<lparr>Name = ''ping'', Methods = [''GET''], Path = ''/'',
                  Description = ''You know, for search''\<rparr>"

text \<open>
  \<open>preprocess_apis\<close> is the part of \<open>preprocess\<close> after the two \<open>go\<close> statements, as
  a function of the sequence of values it receives on the channel \<open>apis\<close>: the
  loop over them from the initial package variables, the sort, and the append of
  the index route. \<open>preprocess\<close> runs it on what the decode pool sends for the
  files that \<open>fetchSpecFiles\<close> found; the table is published only when no task
  ended the process.
\<close>

definition preprocess_apis :: "(string \<Rightarrow> int \<times> int) \<Rightarrow> ('c, 'a) api list \<Rightarrow> ('c, 'a) globals" where
  "preprocess_apis cc apis =
     (let g = range_apis apis globals_init
      in g\<lparr>routes := Sort (criteria cc) (routes g) @ [indexRoute]\<rparr>)"

definition preprocess ::
  "(string \<Rightarrow> int \<times> int) \<Rightarrow> (string \<Rightarrow> 'c) \<Rightarrow> (string \<Rightarrow> 'e + 'a) \<Rightarrow> 'a
     \<Rightarrow> (string \<times> file_content) list \<Rightarrow> abort + ('c, 'a) globals" where
  "preprocess cc cfs afs dflt files =
     (case decodeSpecFiles cfs afs dflt files of
        Inl e \<Rightarrow> Inl e
      | Inr (lg, apis) \<Rightarrow> Inr (preprocess_apis cc apis))"

section \<open>Forwarding handler (\<open>handlers.go\<close>)\<close>

text \<open>
  An \<open>http.Header\<close> is a Go map from canonical header names to the list of the
  header's values. A header map that is ranged over is given by its entries in
  the order the \<open>range\<close> visits them (the keys of a map are distinct); a header
  map that is written is a partial function. \<open>Header.Set\<close> replaces the values
  of a name by the single value given.
\<close>

type_synonym Header = "string \<rightharpoonup> string list"

definition Header_Set :: "Header \<Rightarrow> string \<Rightarrow> string \<Rightarrow> Header" where
  "Header_Set h k v = h(k \<mapsto> [v])"

record Request =
  req_Method :: string
  req_URL_Path :: string
  req_URL_Query :: "(string \<times> string list) list"
  req_Header :: "(string \<times> string list) list"
  req_Body :: string

record PerformRequestOptions =
  opt_Method :: string
  opt_Path :: string
  opt_Params :: "(string \<times> string list) list"
  opt_Headers :: Header
  opt_Body :: string

record Response =
  StatusCode :: int
  resp_Header :: "(string \<times> string list) list"
  resp_Body :: string

record ResponseWriter =
  w_Header :: Header
  w_Status :: "int option"
  w_Body :: string

text \<open>
  What the handler did with the response writer: it called
  \<open>util.WriteBackError(w, err.Error(), http.StatusInternalServerError)\<close>, or it
  relayed the backend's response.
\<close>

datatype served = WriteBackError string int | Relayed ResponseWriter

text \<open>
  The two header loops of the handler have one shape,
  \<open>for k, v := range src { if k != skip { dst.Set(k, v[0]) } }\<close>; \<open>v[0]\<close> on an
  empty list is an index out of range.
\<close>

fun range_header :: "string \<Rightarrow> (string \<times> string list) list \<Rightarrow> Header \<Rightarrow> abort + Header" where
  "range_header skip [] dst = Inr dst"
| "range_header skip ((k, v) # rest) dst =
     (if k \<noteq> skip
      then (case v of
              [] \<Rightarrow> Inl IndexOutOfRange
            | v0 # vs \<Rightarrow> range_header skip rest (Header_Set dst k v0))
      else range_header skip rest dst)"

text \<open>
  \<open>handler\<close>. \<open>PerformRequest\<close> of the backend client is the parameter
  \<open>perform\<close>, answering \<open>Inl\<close> of the error text or \<open>Inr\<close> of the response; \<open>w\<close>
  is the response writer as the handler receives it; \<open>req_Body\<close> is what
  \<open>ioutil.ReadAll\<close> returned (its error is only logged). The result carries the
  options sent to the backend.
\<close>

definition handler ::
  "(PerformRequestOptions \<Rightarrow> string + Response) \<Rightarrow> ResponseWriter \<Rightarrow> Request
     \<Rightarrow> abort + (PerformRequestOptions \<times> served)" where
  "handler perform w r =
     (case range_header ''Content-Type'' (req_Header r) Map.empty of
        Inl e \<Rightarrow> Inl e
      | Inr headers \<Rightarrow>
          (let requestOptions =
                 \<lparr>opt_Method = req_Method r, opt_Path = req_URL_Path r,
                  opt_Params = req_URL_Query r, opt_Headers = headers,
                  opt_Body = req_Body r\<rparr>
           in case perform requestOptions of
                Inl err \<Rightarrow> Inr (requestOptions, WriteBackError err 500)
              | Inr response \<Rightarrow>
                  (case range_header ''Content-Length'' (resp_Header response) (w_Header w) of
                     Inl e \<Rightarrow> Inl e
                   | Inr h \<Rightarrow>
                       Inr (requestOptions,
                            Relayed \<lparr>w_Header = Header_Set h ''X-Origin'' ''ES'',
                                     w_Status = Some (StatusCode response),
                                     w_Body = w_Body w @ resp_Body response\<rparr>))))"

section \<open>Response cache (package \<open>response\<close>)\<close>

text \<open>
  The package variable \<open>Response\<close> is a Go map from request IDs to documents; a
  document (\<open>map[string]interface{}\<close>) is a value of the type parameter \<open>'d\<close>,
  which the three functions never inspect. Each function takes the map and, when
  it writes, returns the new one. \<open>GetResponse\<close> returns a pointer: \<open>None\<close> is
  \<open>nil\<close>, \<open>Some v\<close> points to the stored document.
\<close>

definition GetResponse :: "(string \<rightharpoonup> 'd) \<Rightarrow> string \<Rightarrow> 'd option" where
  "GetResponse Resp requestID =
     (case Resp requestID of None \<Rightarrow> None | Some response \<Rightarrow> Some response)"

definition SaveResponse :: "(string \<rightharpoonup> 'd) \<Rightarrow> string \<Rightarrow> 'd \<Rightarrow> (string \<rightharpoonup> 'd)" where
  "SaveResponse Resp requestID response = Resp(requestID \<mapsto> response)"

definition ClearResponse :: "(string \<rightharpoonup> 'd) \<Rightarrow> string \<Rightarrow> (string \<rightharpoonup> 'd)" where
  "ClearResponse Resp requestID = Resp(requestID := None)"

section \<open>Instances of the missing collaborators, for concrete inputs\<close>

text \<open>
  Modelled from the spec: \<open>util.CountComponents\<close> (package \<open>internal/util\<close> is not
  among the sources). The spec gives the specificity score of a path as its
  fixed-segment count and its parameter-segment count, a parameter segment being
  one marked as a placeholder (\<open>{name}\<close>). The theorems hold for every counting
  function; this one is only used at concrete inputs.
\<close>

definition is_placeholder :: "string \<Rightarrow> bool" where
  "is_placeholder t = (HasPrefix t ''{'' \<and> HasSuffix t ''}'')"

definition CountComponents :: "string \<Rightarrow> int \<times> int" where
  "CountComponents p =
     (let segs = filter (\<lambda>t. t \<noteq> []) (Split p (CHR ''/''))
      in (int (length (filter (\<lambda>t. \<not> is_placeholder t) segs)),
          int (length (filter is_placeholder segs))))"

text \<open>
  Modelled from the spec: \<open>acl.FromString\<close> and \<open>acl.Get\<close> (package
  \<open>internal/types/acl\<close> is not among the sources). The spec names the tiers cat,
  search and get, and has a name outside the vocabulary not resolve. The
  theorems hold for every vocabulary; this one is only used at concrete inputs.
\<close>

datatype ACL = Cat | Search | Get

definition acl_FromString :: "string \<Rightarrow> string + ACL" where
  "acl_FromString t =
     (if t = ''cat'' then Inr Cat
      else if t = ''search'' then Inr Search
      else if t = ''get'' then Inr Get
      else Inl (''invalid acl encountered: '' @ t))"

text \<open>
  Modelled from the spec: \<open>category.FromString\<close> (package
  \<open>internal/types/category\<close> is not among the sources). The spec names the
  categories indices and cluster and maps an unknown token to other. Only used
  at concrete inputs.
\<close>

definition category_FromString :: "string \<Rightarrow> string" where
  "category_FromString t =
     (if t = ''indices'' then ''indices''
      else if t = ''cluster'' then ''cluster''
      else ''other'')"

section \<open>An example corpus\<close>

text \<open>
  Two spec files in the shape of the Elasticsearch REST API specs, and the
  \<open>api\<close> values the decode pool sends for them, used at concrete inputs.
\<close>

definition search_spec :: spec where
  "search_spec = \<lparr>Documentation = ''http://x/search-search.html'',
                   spec_Methods = [''GET'', ''POST''], URL_Path = ''/_search'',
                   URL_Paths = [''/_search'', ''{index}/_search'', ''/''],
                   Body_Required = False\<rparr>"

definition cat_indices_spec :: spec where
  "cat_indices_spec = \<lparr>Documentation = ''http://x/cat-indices.html'',
                        spec_Methods = [''GET''], URL_Path = ''/_cat/indices'',
                        URL_Paths = [''/_cat/indices/{index}'', ''/_cat/indices''],
                        Body_Required = False\<rparr>"

definition example_files :: "(string \<times> file_content) list" where
  "example_files = [(''/api/search.json'', Wrapped search_spec),
                    (''/api/cat.indices.json'', Wrapped cat_indices_spec)]"

definition example_apis :: "(string, ACL) api list" where
  "example_apis = [\<lparr>name = ''search'', category = ''other'', acl = Search, op = Read,
                     spec = search_spec\<rparr>,
                   \<lparr>name = ''cat.indices'', category = ''other'', acl = Cat, op = Read,
                     spec = cat_indices_spec\<rparr>]"

section \<open>Response cache: round trip\<close>

text \<open>
  Claim C9. For every key and document, \<open>SaveResponse\<close> followed by
  \<open>GetResponse\<close> on the same key returns the stored document, a result other
  than the not-found result \<open>None\<close> (the nil pointer); saving again under the
  same key overwrites; \<open>ClearResponse\<close> followed by \<open>GetResponse\<close> gives the
  not-found result; \<open>ClearResponse\<close> on an absent key leaves the cache as it
  was; and neither write touches another key.
\<close>

theorem cache_round_trip:
  "GetResponse (SaveResponse Resp k v) k = Some v
   \<and> GetResponse (SaveResponse Resp k v) k \<noteq> None
   \<and> GetResponse (SaveResponse (SaveResponse Resp k v) k v') k = Some v'
   \<and> SaveResponse (SaveResponse Resp k v) k v' = SaveResponse Resp k v'
   \<and> GetResponse (ClearResponse (SaveResponse Resp k v) k) k = None
   \<and> GetResponse (ClearResponse Resp k) k = None
   \<and> (GetResponse Resp k = None \<longrightarrow> ClearResponse Resp k = Resp)
   \<and> (k' \<noteq> k \<longrightarrow> GetResponse (SaveResponse Resp k v) k' = GetResponse Resp k'
                  \<and> GetResponse (ClearResponse Resp k) k' = GetResponse Resp k')"
  by (auto simp: GetResponse_def SaveResponse_def ClearResponse_def split: option.splits)

theorem cache_round_trip_witness:
  "GetResponse (SaveResponse Map.empty ''r1'' [(''took'', 5::int)]) ''r2'' = None
   \<and> ''r1'' \<noteq> ''r2''
   \<and> ClearResponse (SaveResponse Map.empty ''r1'' [(''took'', 5::int)]) ''r2''
       = SaveResponse Map.empty ''r1'' [(''took'', 5::int)]
   \<and> GetResponse (SaveResponse Map.empty ''r1'' [(''took'', 5::int)]) ''r1'' = Some [(''took'', 5)]
   \<and> GetResponse (ClearResponse (SaveResponse Map.empty ''r1'' [(''took'', 5::int)]) ''r1'') ''r1'' = None
   \<and> GetResponse (ClearResponse (SaveResponse Map.empty ''r1'' [(''took'', 5::int)]) ''r2'') ''r1''
       = Some [(''took'', 5)]"
  using cache_round_trip [of "SaveResponse Map.empty ''r1'' [(''took'', 5::int)]" "''r2''" "[]" "[]" "''r1''"]
        cache_round_trip [of "Map.empty" "''r1''" "[(''took'', 5::int)]" "[]" "''r2''"]
  by (simp add: GetResponse_def SaveResponse_def)

section \<open>Operation classification\<close>

lemma decodeOp_loop_all_POST:
  "list_all (\<lambda>m. m = ''POST'') ms \<Longrightarrow> decodeOp_loop Write ms = Write"
  by (induction ms) simp_all

lemma decodeOp_loop_nonempty:
  "ms \<noteq> [] \<Longrightarrow> decodeOp_loop acc ms = decodeOp_loop acc' ms"
  by (cases ms) simp_all

text \<open>
  Claim C7, as stated, has exhaustion of the method list yield read. A
  spec whose only method is \<open>POST\<close> exhausts its list after the \<open>POST\<close> case has
  set write, and \<open>decodeOp\<close> returns write.
\<close>

theorem decodeOp_only_POST_counterexample:
  "decodeOp \<lparr>Documentation = ''docs-reindex.html'', spec_Methods = [''POST''],
             URL_Path = ''/_reindex'', URL_Paths = [''/_reindex''],
             Body_Required = True\<rparr> = Write
   \<and> decodeOp \<lparr>Documentation = ''docs-reindex.html'', spec_Methods = [''POST''],
               URL_Path = ''/_reindex'', URL_Paths = [''/_reindex''],
               Body_Required = True\<rparr> \<noteq> Read"
  by (simp add: decodeOp_def)

text \<open>
  Claim C7, amended. \<open>decodeOp\<close> scans the methods in their listed order: \<open>PUT\<close>
  or \<open>PATCH\<close> yields write at once, \<open>DELETE\<close> yields delete at once, \<open>GET\<close> or
  \<open>HEAD\<close> yields read at once, any method other than these and \<open>POST\<close> yields
  read at once; \<open>POST\<close> sets write and the scan goes on, so that a later method
  other than \<open>POST\<close> decides (\<open>POST\<close>, \<open>GET\<close> yields read), and when only
  \<open>POST\<close>s follow the exhausted list leaves write. An empty list yields the zero
  value, read.
\<close>

theorem decodeOp_scan:
  "decodeOp (s\<lparr>spec_Methods := ''PUT'' # ms\<rparr>) = Write
   \<and> decodeOp (s\<lparr>spec_Methods := ''PATCH'' # ms\<rparr>) = Write
   \<and> decodeOp (s\<lparr>spec_Methods := ''DELETE'' # ms\<rparr>) = Delete
   \<and> decodeOp (s\<lparr>spec_Methods := ''GET'' # ms\<rparr>) = Read
   \<and> decodeOp (s\<lparr>spec_Methods := ''HEAD'' # ms\<rparr>) = Read
   \<and> decodeOp (s\<lparr>spec_Methods := ''POST'' # ms\<rparr>)
       = (if list_all (\<lambda>m. m = ''POST'') ms then Write else decodeOp (s\<lparr>spec_Methods := ms\<rparr>))
   \<and> decodeOp (s\<lparr>spec_Methods := [''POST'', ''GET'']\<rparr>) = Read
   \<and> (m \<notin> {''PUT'', ''PATCH'', ''DELETE'', ''GET'', ''HEAD'', ''POST''}
        \<longrightarrow> decodeOp (s\<lparr>spec_Methods := m # ms\<rparr>) = Read)
   \<and> decodeOp (s\<lparr>spec_Methods := []\<rparr>) = Read"
proof -
  have post: "decodeOp_loop Write ms
                = (if list_all (\<lambda>m. m = ''POST'') ms then Write else decodeOp_loop Operation_zero ms)"
  proof (cases "list_all (\<lambda>m. m = ''POST'') ms")
    case True
    then show ?thesis by (simp add: decodeOp_loop_all_POST)
  next
    case False
    then have "ms \<noteq> []" by auto
    then have "decodeOp_loop Write ms = decodeOp_loop Operation_zero ms"
      by (rule decodeOp_loop_nonempty)
    with False show ?thesis by simp
  qed
  show ?thesis
    by (simp add: decodeOp_def Operation_zero_def post [unfolded Operation_zero_def])
qed

theorem decodeOp_scan_witness:
  "''OPTIONS'' \<notin> {''PUT'', ''PATCH'', ''DELETE'', ''GET'', ''HEAD'', ''POST''}
   \<and> decodeOp \<lparr>Documentation = '''', spec_Methods = [''OPTIONS'', ''PUT''],
               URL_Path = ''/_x'', URL_Paths = [], Body_Required = False\<rparr> = Read
   \<and> decodeOp \<lparr>Documentation = '''', spec_Methods = [''POST'', ''POST'', ''DELETE''],
               URL_Path = ''/_x'', URL_Paths = [], Body_Required = False\<rparr> = Delete"
  using decodeOp_scan [where s = "\<lparr>Documentation = '''', spec_Methods = [], URL_Path = ''/_x'',
                                   URL_Paths = [], Body_Required = False\<rparr>"
                          and ms = "[''PUT'']" and m = "''OPTIONS''"]
        decodeOp_scan [where s = "\<lparr>Documentation = '''', spec_Methods = [], URL_Path = ''/_x'',
                                   URL_Paths = [], Body_Required = False\<rparr>"
                          and ms = "[''POST'', ''DELETE'']" and m = "''OPTIONS''"]
  by (simp add: decodeOp_def)

section \<open>The sort and the builder loops\<close>

lemma mset_Sort_insert: "mset (Sort_insert lt x xs) = add_mset x (mset xs)"
  by (induction xs) auto

lemma mset_Sort: "mset (Sort lt xs) = mset xs"
  by (induction xs) (auto simp: mset_Sort_insert)

lemma set_Sort_insert: "set (Sort_insert lt x xs) = insert x (set xs)"
  by (induction xs) auto

lemma set_Sort: "set (Sort lt xs) = set xs"
  by (induction xs) (simp_all add: set_Sort_insert)



lemma sorted_Sort_insert:
  assumes asym: "\<And>a b. lt a b \<Longrightarrow> \<not> lt b a"
    and negtrans: "\<And>a b c. \<not> lt a b \<Longrightarrow> \<not> lt b c \<Longrightarrow> \<not> lt a c"
  shows "sorted_wrt (\<lambda>a b. \<not> lt b a) xs \<Longrightarrow> sorted_wrt (\<lambda>a b. \<not> lt b a) (Sort_insert lt x xs)"
proof (induction xs)
  case Nil
  then show ?case by simp
next
  case (Cons y ys)
  from Cons.prems have tail: "sorted_wrt (\<lambda>a b. \<not> lt b a) ys"
    and head: "\<forall>z\<in>set ys. \<not> lt z y" by simp_all
  show ?case
  proof (cases "lt y x")
    case True
    then have "\<not> lt x y" by (rule asym)
    moreover have "sorted_wrt (\<lambda>a b. \<not> lt b a) (Sort_insert lt x ys)"
      using tail by (rule Cons.IH)
    ultimately show ?thesis using True head by (simp add: set_Sort_insert)
  next
    case False
    have "\<forall>z\<in>set ys. \<not> lt z x"
    proof
      fix z assume "z \<in> set ys"
      with head have "\<not> lt z y" by simp
      from this False show "\<not> lt z x" by (rule negtrans)
    qed
    with False tail head show ?thesis by simp
  qed
qed

lemma sorted_Sort:
  assumes asym: "\<And>a b. lt a b \<Longrightarrow> \<not> lt b a"
    and negtrans: "\<And>a b c. \<not> lt a b \<Longrightarrow> \<not> lt b c \<Longrightarrow> \<not> lt a c"
  shows "sorted_wrt (\<lambda>a b. \<not> lt b a) (Sort lt xs)"
proof (induction xs)
  case Nil
  show ?case by simp
next
  case (Cons x xs)
  have "sorted_wrt (\<lambda>a b. \<not> lt b a) (Sort_insert lt x (Sort lt xs))"
    by (rule sorted_Sort_insert [OF asym negtrans Cons.IH])
  then show ?case by simp
qed

lemma criteria_asym: "criteria cc a b \<Longrightarrow> \<not> criteria cc b a"
  by (auto simp: criteria_def Let_def split: if_splits)

lemma criteria_negtrans: "\<not> criteria cc a b \<Longrightarrow> \<not> criteria cc b c \<Longrightarrow> \<not> criteria cc a c"
  by (auto simp: criteria_def Let_def split: if_splits)

lemma sorted_Sort_criteria:
  "sorted_wrt (\<lambda>a b. \<not> criteria cc b a) (Sort (criteria cc) xs)"
  by (rule sorted_Sort [OF criteria_asym criteria_negtrans])

lemma not_criteria_iff:
  "(\<not> criteria cc b a) =
     (fst (cc (Path b)) \<le> fst (cc (Path a))
      \<and> (fst (cc (Path a)) = fst (cc (Path b)) \<longrightarrow> snd (cc (Path a)) \<le> snd (cc (Path b))))"
  by (auto simp: criteria_def Let_def)

(* builder *)
lemma routes_range_paths:
  "routes (range_paths a ps g) =
     routes g @ map (\<lambda>p. \<lparr>Name = name a, Methods = spec_Methods (spec a), Path = p,
                           Description = Documentation (spec a)\<rparr>)
                  (filter (\<lambda>p. p \<noteq> ''/'') (map (\<lambda>p. if HasPrefix p ''/'' then p else ''/'' @ p) ps))"
  by (induction ps arbitrary: g) (auto simp: Let_def)

lemma routes_note_acl: "routes (note_acl a g) = routes g"
  by (simp add: note_acl_def Let_def)


lemma routes_range_apis:
  "routes (range_apis apis g) =
     routes g @ concat (map (\<lambda>a. map (\<lambda>p. \<lparr>Name = name a, Methods = spec_Methods (spec a), Path = p,
                           Description = Documentation (spec a)\<rparr>)
                  (filter (\<lambda>p. p \<noteq> ''/'') (map (\<lambda>p. if HasPrefix p ''/'' then p else ''/'' @ p) (URL_Paths (spec a))))) apis)"
  by (induction apis arbitrary: g) (auto simp: routes_range_paths routes_note_acl)

lemma routes_preprocess_apis:
  "routes (preprocess_apis cc apis) = Sort (criteria cc) (routes (range_apis apis globals_init)) @ [indexRoute]"
  by (simp add: preprocess_apis_def Let_def)

lemma preprocess_InrD:
  "preprocess cc cfs afs dflt files = Inr g \<Longrightarrow>
     \<exists>lg apis. decodeSpecFiles cfs afs dflt files = Inr (lg, apis) \<and> g = preprocess_apis cc apis"
  by (auto simp: preprocess_def split: sum.splits)


section \<open>The published route table\<close>

lemma example_decode:
  "decodeSpecFiles category_FromString acl_FromString Get example_files = Inr ([], example_apis)"
  by (simp add: example_files_def example_apis_def search_spec_def cat_indices_spec_def
      decodeSpecFile_def decodeACL_def Base_def TrimSuffix_def HasSuffix_def HasPrefix_def
      TrimPrefix_def decodeCategory_def decodeOp_def acl_FromString_def category_FromString_def
      Operation_zero_def Let_def)

lemma example_table:
  "routes (preprocess_apis CountComponents example_apis) =
     [\<lparr>Name = ''cat.indices'', Methods = [''GET''], Path = ''/_cat/indices'',
       Description = ''http://x/cat-indices.html''\<rparr>,
      \<lparr>Name = ''cat.indices'', Methods = [''GET''], Path = ''/_cat/indices/{index}'',
       Description = ''http://x/cat-indices.html''\<rparr>,
      \<lparr>Name = ''search'', Methods = [''GET'', ''POST''], Path = ''/_search'',
       Description = ''http://x/search-search.html''\<rparr>,
      \<lparr>Name = ''search'', Methods = [''GET'', ''POST''], Path = ''/{index}/_search'',
       Description = ''http://x/search-search.html''\<rparr>,
      indexRoute]"
  unfolding routes_preprocess_apis routes_range_apis
  by (simp add: globals_init_def example_apis_def
      search_spec_def cat_indices_spec_def HasPrefix_def HasSuffix_def criteria_def
      CountComponents_def is_placeholder_def Let_def)


lemma Path_range_apis_gen:
  assumes "\<forall>r\<in>set (routes g). Path r \<noteq> ''/'' \<and> HasPrefix (Path r) ''/''"
  shows "\<forall>r\<in>set (routes (range_apis apis g)). Path r \<noteq> ''/'' \<and> HasPrefix (Path r) ''/''"
proof
  fix r
  assume r: "r \<in> set (routes (range_apis apis g))"
  define slashed where "slashed = (\<lambda>p. if HasPrefix p ''/'' then p else ''/'' @ p)"
  have pre: "HasPrefix (slashed p) ''/''" for p
    by (simp add: slashed_def HasPrefix_def)
  from r consider "r \<in> set (routes g)"
    | p where "slashed p \<noteq> ''/''" and "Path r = slashed p"
    unfolding routes_range_apis slashed_def [symmetric] by auto
  then show "Path r \<noteq> ''/'' \<and> HasPrefix (Path r) ''/''"
  proof cases
    case 1
    with assms show ?thesis by blast
  next
    case 2
    with pre [of p] show ?thesis by simp
  qed
qed

lemma Path_range_apis:
  "r \<in> set (routes (range_apis apis globals_init)) \<Longrightarrow>
     Path r \<noteq> ''/'' \<and> HasPrefix (Path r) ''/''"
  using Path_range_apis_gen [of globals_init apis] by (simp add: globals_init_def)

lemma filter_root_range_apis:
  "filter (\<lambda>r. Path r = ''/'') (Sort lt (routes (range_apis apis globals_init))) = []"
  by (simp add: filter_empty_conv set_Sort Path_range_apis)

text \<open>
  Claim C1. Whatever the spec files and whatever the order in which the decode
  tasks finish, a route table that \<open>preprocess\<close> publishes ends with the index
  route (method \<open>GET\<close>, path \<open>/\<close>); that entry is the only one whose path is
  \<open>/\<close>; and the entries before it are the sorted accumulated routes, so the index
  route is appended after the sort and is not among the sorted entries.
\<close>

theorem catch_all_last:
  assumes "preprocess cc cfs afs dflt files = Inr g"
  shows "routes g \<noteq> [] \<and> last (routes g) = indexRoute
         \<and> Methods (last (routes g)) = [''GET''] \<and> Path (last (routes g)) = ''/''
         \<and> filter (\<lambda>r. Path r = ''/'') (routes g) = [indexRoute]
         \<and> (\<exists>lg apis. decodeSpecFiles cfs afs dflt files = Inr (lg, apis)
               \<and> butlast (routes g) = Sort (criteria cc) (routes (range_apis apis globals_init)))"
proof -
  from assms obtain lg apis where d: "decodeSpecFiles cfs afs dflt files = Inr (lg, apis)"
    and g: "g = preprocess_apis cc apis"
    by (blast dest: preprocess_InrD)
  have t: "routes g = Sort (criteria cc) (routes (range_apis apis globals_init)) @ [indexRoute]"
    by (simp add: g routes_preprocess_apis)
  have "filter (\<lambda>r. Path r = ''/'') (routes g) = [indexRoute]"
    by (simp add: t filter_root_range_apis) (simp add: indexRoute_def)
  moreover have "butlast (routes g) = Sort (criteria cc) (routes (range_apis apis globals_init))"
    by (simp add: t)
  moreover have "Methods indexRoute = [''GET''] \<and> Path indexRoute = ''/''"
    by (simp add: indexRoute_def)
  ultimately show ?thesis using d by (simp add: t)
qed

theorem catch_all_last_witness:
  "preprocess CountComponents category_FromString acl_FromString Get example_files
     = Inr (preprocess_apis CountComponents example_apis)
   \<and> last (routes (preprocess_apis CountComponents example_apis)) = indexRoute
   \<and> length (routes (preprocess_apis CountComponents example_apis)) = 5
   \<and> filter (\<lambda>r. Path r = ''/'') (routes (preprocess_apis CountComponents example_apis)) = [indexRoute]"
proof -
  have h: "preprocess CountComponents category_FromString acl_FromString Get example_files
             = Inr (preprocess_apis CountComponents example_apis)"
    by (simp add: preprocess_def example_decode)
  show ?thesis using h catch_all_last [OF h] by (simp add: example_table)
qed

text \<open>
  Claim C2. In a published route table, for entries at positions \<open>i < j\<close> before
  the final catch-all, the fixed-segment count at \<open>i\<close> is at least the one at
  \<open>j\<close>, and when the two are equal the parameter-segment count at \<open>i\<close> is at most
  the one at \<open>j\<close>.
\<close>

theorem routes_sorted_by_specificity:
  assumes "preprocess cc cfs afs dflt files = Inr g"
    and "i < j" and "j < length (routes g) - 1"
  shows "fst (cc (Path (routes g ! j))) \<le> fst (cc (Path (routes g ! i)))
         \<and> (fst (cc (Path (routes g ! i))) = fst (cc (Path (routes g ! j)))
              \<longrightarrow> snd (cc (Path (routes g ! i))) \<le> snd (cc (Path (routes g ! j))))"
proof -
  from assms(1) obtain lg apis where g: "g = preprocess_apis cc apis"
    by (blast dest: preprocess_InrD)
  define t where "t = Sort (criteria cc) (routes (range_apis apis globals_init))"
  have rt: "routes g = t @ [indexRoute]"
    by (simp add: g routes_preprocess_apis t_def)
  from assms(2,3) have j: "j < length t" and i: "i < length t" by (simp_all add: rt)
  have "sorted_wrt (\<lambda>a b. \<not> criteria cc b a) t"
    unfolding t_def by (rule sorted_Sort_criteria)
  with assms(2) j have "\<not> criteria cc (t ! j) (t ! i)"
    by (simp add: sorted_wrt_iff_nth_less)
  then show ?thesis using i j by (simp add: rt nth_append not_criteria_iff)
qed

theorem routes_sorted_by_specificity_witness:
  "preprocess CountComponents category_FromString acl_FromString Get example_files
     = Inr (preprocess_apis CountComponents example_apis)
   \<and> (0::nat) < 1 \<and> 1 < length (routes (preprocess_apis CountComponents example_apis)) - 1
   \<and> CountComponents (Path (routes (preprocess_apis CountComponents example_apis) ! 0)) = (2, 0)
   \<and> CountComponents (Path (routes (preprocess_apis CountComponents example_apis) ! 1)) = (2, 1)
   \<and> snd (CountComponents (Path (routes (preprocess_apis CountComponents example_apis) ! 0)))
       \<le> snd (CountComponents (Path (routes (preprocess_apis CountComponents example_apis) ! 1)))"
proof -
  have h: "preprocess CountComponents category_FromString acl_FromString Get example_files
             = Inr (preprocess_apis CountComponents example_apis)"
    by (simp add: preprocess_def example_decode)
  have i: "(0::nat) < 1" by simp
  have j: "1 < length (routes (preprocess_apis CountComponents example_apis)) - 1"
    by (simp add: example_table)
  show ?thesis
    using h i j routes_sorted_by_specificity [OF h i j]
    by (simp add: example_table CountComponents_def is_placeholder_def HasPrefix_def HasSuffix_def)
qed

section \<open>Path variants and duplicates in the route table\<close>








text \<open>
  Claim C4, as stated, has the builder fall back to the canonical \<open>url.path\<close>
  of a spec that declares no path variants. \<open>preprocess\<close> ranges over
  \<open>URL.Paths\<close> only: a spec with the canonical path \<open>/_search\<close> and no variants
  contributes no entry, and the table is the index route alone.
\<close>

theorem no_canonical_fallback_counterexample:
  "preprocess CountComponents category_FromString acl_FromString Get
     [(''/api/search.json'', Wrapped \<lparr>Documentation = ''http://x/search-search.html'',
                 spec_Methods = [''GET'', ''POST''], URL_Path = ''/_search'',
                 URL_Paths = [], Body_Required = False\<rparr>)]
   = Inr (preprocess_apis CountComponents
       [\<lparr>name = ''search'', category = ''other'', acl = Search, op = Read,
        spec = \<lparr>Documentation = ''http://x/search-search.html'',
                 spec_Methods = [''GET'', ''POST''], URL_Path = ''/_search'',
                 URL_Paths = [], Body_Required = False\<rparr>\<rparr>])
   \<and> routes (preprocess_apis CountComponents
       [\<lparr>name = ''search'', category = ''other'', acl = Search, op = Read,
        spec = \<lparr>Documentation = ''http://x/search-search.html'',
                 spec_Methods = [''GET'', ''POST''], URL_Path = ''/_search'',
                 URL_Paths = [], Body_Required = False\<rparr>\<rparr> :: (string, ACL) api])
     = [indexRoute]
   \<and> ''/_search'' \<notin> Path ` set (routes (preprocess_apis CountComponents
       [\<lparr>name = ''search'', category = ''other'', acl = Search, op = Read,
        spec = \<lparr>Documentation = ''http://x/search-search.html'',
                 spec_Methods = [''GET'', ''POST''], URL_Path = ''/_search'',
                 URL_Paths = [], Body_Required = False\<rparr>\<rparr> :: (string, ACL) api]))"
  by (simp add: preprocess_def decodeSpecFile_def decodeACL_def Base_def TrimSuffix_def
      HasSuffix_def HasPrefix_def TrimPrefix_def decodeCategory_def decodeOp_def
      acl_FromString_def category_FromString_def Operation_zero_def Let_def
      routes_preprocess_apis routes_note_acl globals_init_def indexRoute_def)

text \<open>
  Claim C4, amended. For every decoded spec the builder registers one route
  entry per declared path variant, with the variant normalised to begin with
  \<open>/\<close> and a variant that is then the bare \<open>/\<close> skipped; every registered path
  begins with \<open>/\<close>; and a spec that declares no variants contributes no entry
  (the canonical \<open>url.path\<close> is not used as a fallback).
\<close>

theorem path_variants_registered:
  "mset (routes (preprocess_apis cc apis)) =
     mset (concat (map (\<lambda>a. map (\<lambda>p. \<lparr>Name = name a, Methods = spec_Methods (spec a), Path = p,
                                       Description = Documentation (spec a)\<rparr>)
                              (filter (\<lambda>p. p \<noteq> ''/'')
                                 (map (\<lambda>p. if HasPrefix p ''/'' then p else ''/'' @ p)
                                    (URL_Paths (spec a))))) apis))
     + {#indexRoute#}
   \<and> (\<forall>r\<in>set (routes (preprocess_apis cc apis)). HasPrefix (Path r) ''/'')
   \<and> ((\<forall>a\<in>set apis. URL_Paths (spec a) = []) \<longrightarrow> routes (preprocess_apis cc apis) = [indexRoute])"
proof -
  have one: "mset (routes (preprocess_apis cc apis)) =
     mset (concat (map (\<lambda>a. map (\<lambda>p. \<lparr>Name = name a, Methods = spec_Methods (spec a), Path = p,
                                       Description = Documentation (spec a)\<rparr>)
                              (filter (\<lambda>p. p \<noteq> ''/'')
                                 (map (\<lambda>p. if HasPrefix p ''/'' then p else ''/'' @ p)
                                    (URL_Paths (spec a))))) apis))
     + {#indexRoute#}"
    unfolding routes_preprocess_apis mset_append mset_Sort routes_range_apis
    by (simp add: globals_init_def)
  have "HasPrefix (Path indexRoute) ''/''"
    by (simp add: indexRoute_def HasPrefix_def)
  then have two: "\<forall>r\<in>set (routes (preprocess_apis cc apis)). HasPrefix (Path r) ''/''"
    by (auto simp: routes_preprocess_apis set_Sort dest: Path_range_apis)
  have three: "routes (preprocess_apis cc apis) = [indexRoute]"
    if "\<forall>a\<in>set apis. URL_Paths (spec a) = []"
  proof -
    from that have "routes (range_apis apis globals_init) = []"
      unfolding routes_range_apis by (simp add: globals_init_def)
    then show ?thesis by (simp add: routes_preprocess_apis)
  qed
  from one two three show ?thesis by blast
qed

theorem path_variants_registered_witness:
  "routes (preprocess_apis CountComponents example_apis) \<noteq> []
   \<and> Path (routes (preprocess_apis CountComponents example_apis) ! 3) = ''/{index}/_search''
   \<and> HasPrefix (Path (routes (preprocess_apis CountComponents example_apis) ! 3)) ''/''
   \<and> size (mset (routes (preprocess_apis CountComponents example_apis))) = 5
   \<and> URL_Paths (spec (\<lparr>name = ''search'', category = ''other'', acl = Search, op = Read,
        spec = \<lparr>Documentation = ''http://x/search-search.html'',
                 spec_Methods = [''GET'', ''POST''], URL_Path = ''/_search'',
                 URL_Paths = [], Body_Required = False\<rparr>\<rparr> :: (string, ACL) api)) = []
   \<and> routes (preprocess_apis CountComponents
       [\<lparr>name = ''search'', category = ''other'', acl = Search, op = Read,
        spec = \<lparr>Documentation = ''http://x/search-search.html'',
                 spec_Methods = [''GET'', ''POST''], URL_Path = ''/_search'',
                 URL_Paths = [], Body_Required = False\<rparr>\<rparr> :: (string, ACL) api])
     = [indexRoute]"
  using path_variants_registered [of CountComponents example_apis]
        path_variants_registered [of CountComponents
          "[\<lparr>name = ''search'', category = ''other'', acl = Search, op = Read,
        spec = \<lparr>Documentation = ''http://x/search-search.html'',
                 spec_Methods = [''GET'', ''POST''], URL_Path = ''/_search'',
                 URL_Paths = [], Body_Required = False\<rparr>\<rparr> :: (string, ACL) api]"]
  by (simp add: example_table HasPrefix_def)





section \<open>Failures of a decode task\<close>

lemma decodeSpecFile_malformed:
  "snd f \<in> {NoOpeningToken, NoNameToken, BodyRejected} \<Longrightarrow>
     decodeSpecFile cfs afs dflt f = Inl LogFatal"
  by (auto simp: decodeSpecFile_def)

lemma decodeSpecFiles_malformed:
  assumes "f \<in> set files" and "snd f \<in> {NoOpeningToken, NoNameToken, BodyRejected}"
  shows "isl (decodeSpecFiles cfs afs dflt files)"
  using assms(1)
proof (induction files)
  case Nil
  then show ?case by simp
next
  case (Cons x files)
  show ?case
  proof (cases "x = f")
    case True
    with assms(2) show ?thesis by (simp add: decodeSpecFile_malformed)
  next
    case False
    with Cons have "isl (decodeSpecFiles cfs afs dflt files)" by simp
    then show ?thesis by (auto split: sum.splits prod.splits)
  qed
qed

text \<open>
  Claim C3 has a malformed spec file logged and skipped. In \<open>decodeSpecFile\<close>
  only a failed read is logged and skipped; each of the three decode errors
  calls \<open>log.Fatal\<close>, which ends the process. So whatever the corpus and the order
  in which the tasks finish, one file that is read but does not decode leaves
  \<open>preprocess\<close> without a result: no route table is published.
\<close>

theorem malformed_file_aborts:
  assumes "f \<in> set files" and "snd f \<in> {NoOpeningToken, NoNameToken, BodyRejected}"
  shows "isl (preprocess cc cfs afs dflt files)"
  using decodeSpecFiles_malformed [OF assms, of cfs afs dflt]
  by (auto simp: preprocess_def split: sum.splits)

theorem malformed_file_aborts_witness:
  "(''/api/broken.json'', BodyRejected)
     \<in> set [(''/api/search.json'', Wrapped search_spec),
             (''/api/broken.json'', BodyRejected),
             (''/api/cat.indices.json'', Wrapped cat_indices_spec)]
   \<and> snd (''/api/broken.json'', BodyRejected) \<in> {NoOpeningToken, NoNameToken, BodyRejected}
   \<and> preprocess CountComponents category_FromString acl_FromString Get
         [(''/api/search.json'', Wrapped search_spec),
          (''/api/broken.json'', BodyRejected),
          (''/api/cat.indices.json'', Wrapped cat_indices_spec)]
       = Inl LogFatal
   \<and> preprocess CountComponents category_FromString acl_FromString Get
         [(''/api/search.json'', Wrapped search_spec),
          (''/api/cat.indices.json'', Wrapped cat_indices_spec)]
       = Inr (preprocess_apis CountComponents example_apis)"
proof -
  have m: "(''/api/broken.json'', BodyRejected)
     \<in> set [(''/api/search.json'', Wrapped search_spec),
             (''/api/broken.json'', BodyRejected),
             (''/api/cat.indices.json'', Wrapped cat_indices_spec)]" by simp
  have b: "snd (''/api/broken.json'', BodyRejected) \<in> {NoOpeningToken, NoNameToken, BodyRejected}"
    by simp
  have good: "decodeSpecFile category_FromString acl_FromString Get
                (''/api/search.json'', Wrapped search_spec)
              = Inr ([], Some (hd example_apis))"
    by (simp add: example_apis_def search_spec_def
      decodeSpecFile_def decodeACL_def Base_def TrimSuffix_def HasSuffix_def HasPrefix_def
      TrimPrefix_def decodeCategory_def decodeOp_def acl_FromString_def category_FromString_def
      Operation_zero_def Let_def)
  show ?thesis
    using m b malformed_file_aborts [OF m b, of CountComponents category_FromString acl_FromString Get]
      example_decode
    by (simp add: preprocess_def good decodeSpecFile_malformed example_files_def)
qed

lemma Split_no_sep: "c \<notin> set t \<Longrightarrow> Split t c = [t]"
  by (induction t) auto

text \<open>
  Claim C6 has an unresolved lookup default to the get tier without failing the
  decode task. That holds for the lookup of the file name. When the canonical
  path has an underscore segment that the vocabulary does not know,
  \<open>decodeACL\<close> returns the nil pointer with the error, and \<open>decodeSpecFile\<close>
  dereferences it after logging: the task panics.
\<close>

theorem unknown_underscore_segment_panics:
  assumes "afs t = Inl e" and "CHR ''/'' \<notin> set t"
  shows "decodeACL afs dflt specName (s\<lparr>URL_Path := ''/_'' @ t\<rparr>) = (None, Some e)
         \<and> decodeSpecFile cfs afs dflt (fname, Wrapped (s\<lparr>URL_Path := ''/_'' @ t\<rparr>))
             = Inl NilDereference"
proof -
  from assms(2) have "Split (CHR ''_'' # t) (CHR ''/'') = [CHR ''_'' # t]"
    by (intro Split_no_sep) simp
  then have "Split (''/_'' @ t) (CHR ''/'') = [[], CHR ''_'' # t]" by simp
  then have acl: "decodeACL afs dflt specName (s\<lparr>URL_Path := ''/_'' @ t\<rparr>) = (None, Some e)"
    for specName
    using assms(1) by (simp add: decodeACL_def HasPrefix_def TrimPrefix_def)
  then show ?thesis by (simp add: decodeSpecFile_def Let_def)
qed

theorem unknown_underscore_segment_panics_witness:
  "acl_FromString ''nodes'' = Inl ''invalid acl encountered: nodes''
   \<and> CHR ''/'' \<notin> set ''nodes''
   \<and> decodeACL acl_FromString Get ''nodes.info''
        \<lparr>Documentation = ''http://x/cluster-nodes-info.html'', spec_Methods = [''GET''],
         URL_Path = ''/_nodes'', URL_Paths = [''/_nodes''], Body_Required = False\<rparr>
       = (None, Some ''invalid acl encountered: nodes'')
   \<and> decodeSpecFile category_FromString acl_FromString Get
        (''/api/nodes.info.json'',
         Wrapped \<lparr>Documentation = ''http://x/cluster-nodes-info.html'', spec_Methods = [''GET''],
                  URL_Path = ''/_nodes'', URL_Paths = [''/_nodes''], Body_Required = False\<rparr>)
       = Inl NilDereference"
proof -
  have h: "acl_FromString ''nodes'' = Inl ''invalid acl encountered: nodes''"
    by (simp add: acl_FromString_def)
  have n: "CHR ''/'' \<notin> set ''nodes''" by simp
  show ?thesis
    using h n unknown_underscore_segment_panics [where afs = acl_FromString and t = "''nodes''"
      and e = "''invalid acl encountered: nodes''" and dflt = Get and specName = "''nodes.info''"
      and cfs = category_FromString and fname = "''/api/nodes.info.json''"
      and s = "\<lparr>Documentation = ''http://x/cluster-nodes-info.html'', spec_Methods = [''GET''],
                URL_Path = ''/_nodes'', URL_Paths = [''/_nodes''], Body_Required = False\<rparr>",
      OF h n]
    by simp
qed

section \<open>Headers relayed by the forwarding handler\<close>

text \<open>
  Claim C8 has the handler send the backend the inbound headers without
  \<open>Content-Type\<close> and copy every backend response header except
  \<open>Content-Length\<close>. Both loops call \<open>Set(k, v[0])\<close>: of a header with several
  values only the first is relayed. Here the request carries two \<open>Accept\<close>
  values and the backend answers with two \<open>Warning\<close> values; one of each
  arrives.
\<close>

theorem handler_forwards_first_value_only:
  "handler
     (\<lambda>opts. Inr \<lparr>StatusCode = 200,
                   resp_Header = [(''Warning'', [''299 one'', ''299 two'']),
                                  (''Content-Length'', [''2''])],
                   resp_Body = ''{}''\<rparr>)
     \<lparr>w_Header = Map.empty, w_Status = None, w_Body = ''''\<rparr>
     \<lparr>req_Method = ''GET'', req_URL_Path = ''/_search'', req_URL_Query = [],
      req_Header = [(''Accept'', [''application/json'', ''text/plain'']),
                    (''Content-Type'', [''application/json''])],
      req_Body = ''{}''\<rparr>
   = Inr (\<lparr>opt_Method = ''GET'', opt_Path = ''/_search'', opt_Params = [],
           opt_Headers = [''Accept'' \<mapsto> [''application/json'']], opt_Body = ''{}''\<rparr>,
          Relayed \<lparr>w_Header = [''Warning'' \<mapsto> [''299 one''], ''X-Origin'' \<mapsto> [''ES'']],
                   w_Status = Some 200, w_Body = ''{}''\<rparr>)"
  by (simp add: handler_def Header_Set_def)

end
